theory Spec2Isabelle
  imports Main
begin

section \<open>Python values used by the plugins\<close>

text \<open>
  The two plugins (\<^verbatim>\<open>encoder_audio_custom/plugin.py\<close> and
  \<^verbatim>\<open>remove_stream_by_language/plugin.py\<close>) work on the dictionaries of an
  ffprobe result and on the plugin settings. The settings object that each method builds
  with \<^verbatim>\<open>Settings()\<close> is the parameter \<open>settings\<close>, and \<^verbatim>\<open>self\<close> is the mapper.
  Python's unbounded integers are modelled as \<open>int\<close>, the tags dictionary as an
  association list of distinct keys whose lookup is \<open>map_of\<close>, an absent key as
  \<open>None\<close>, and a raised exception as the \<open>Inl\<close> of a sum. A method that logs returns
  its log records beside its value.

  A text is a \<open>string\<close> whose characters are the code points below 256 (ASCII and
  Latin-1). On these \<^verbatim>\<open>str.lower\<close>, \<^verbatim>\<open>str.strip\<close>, \<^verbatim>\<open>str.split\<close> and
  \<^verbatim>\<open>int\<close> are modelled as Python computes them; a text with a code point beyond
  255 is not a value of the model.
\<close>

datatype py_error = AttributeError | ValueError | TypeError

text \<open>What the plugins do to the outside: log records and the probe of a file.\<close>

datatype event = LogDebug string | LogWarning string | ProbeFile "string list" string

subsection \<open>\<^verbatim>\<open>str.lower()\<close>\<close>

text \<open>
  The cased letters below 256: \<^verbatim>\<open>A\<close> to \<^verbatim>\<open>Z\<close>, and the Latin-1 capitals 0xC0 to 0xDE
  without the multiplication sign 0xD7. The lowercase letter of each is 32 above it.
\<close>

definition upper_chars :: string where
  "upper_chars = ''ABCDEFGHIJKLMNOPQRSTUVWXYZ'' @
     [CHR 0xC0, CHR 0xC1, CHR 0xC2, CHR 0xC3, CHR 0xC4, CHR 0xC5, CHR 0xC6, CHR 0xC7,
      CHR 0xC8, CHR 0xC9, CHR 0xCA, CHR 0xCB, CHR 0xCC, CHR 0xCD, CHR 0xCE, CHR 0xCF,
      CHR 0xD0, CHR 0xD1, CHR 0xD2, CHR 0xD3, CHR 0xD4, CHR 0xD5, CHR 0xD6, CHR 0xD8,
      CHR 0xD9, CHR 0xDA, CHR 0xDB, CHR 0xDC, CHR 0xDD, CHR 0xDE]"

definition lower_chars :: string where
  "lower_chars = ''abcdefghijklmnopqrstuvwxyz'' @
     [CHR 0xE0, CHR 0xE1, CHR 0xE2, CHR 0xE3, CHR 0xE4, CHR 0xE5, CHR 0xE6, CHR 0xE7,
      CHR 0xE8, CHR 0xE9, CHR 0xEA, CHR 0xEB, CHR 0xEC, CHR 0xED, CHR 0xEE, CHR 0xEF,
      CHR 0xF0, CHR 0xF1, CHR 0xF2, CHR 0xF3, CHR 0xF4, CHR 0xF5, CHR 0xF6, CHR 0xF8,
      CHR 0xF9, CHR 0xFA, CHR 0xFB, CHR 0xFC, CHR 0xFD, CHR 0xFE]"

definition lower_char :: "char \<Rightarrow> char" where
  "lower_char c =
     (case map_of (zip upper_chars lower_chars) c of
        Some d \<Rightarrow> d
      | None \<Rightarrow> c)"

definition py_lower :: "string \<Rightarrow> string" where
  "py_lower s = map lower_char s"

subsection \<open>\<^verbatim>\<open>a in b\<close> on strings: \<open>a\<close> occurs in \<open>b\<close> as a contiguous piece\<close>

fun starts_with :: "string \<Rightarrow> string \<Rightarrow> bool" where
  "starts_with [] s = True"
| "starts_with (p # ps) [] = False"
| "starts_with (p # ps) (c # cs) = (if p = c then starts_with ps cs else False)"

fun py_in :: "string \<Rightarrow> string \<Rightarrow> bool" where
  "py_in a [] = (a = [])"
| "py_in a (c # cs) = (if starts_with a (c # cs) then True else py_in a cs)"

subsection \<open>\<^verbatim>\<open>str.split(',')\<close>, \<^verbatim>\<open>filter(None, ...)\<close>, \<^verbatim>\<open>str.strip()\<close>, \<^verbatim>\<open>str.split()\<close>\<close>

fun py_split :: "char \<Rightarrow> string \<Rightarrow> string list" where
  "py_split sep [] = [[]]"
| "py_split sep (c # cs) =
     (if c = sep then [] # py_split sep cs
      else (case py_split sep cs of
              [] \<Rightarrow> [[c]]
            | w # ws \<Rightarrow> (c # w) # ws))"

definition filter_None :: "string list \<Rightarrow> string list" where
  "filter_None xs = filter (\<lambda>x. x \<noteq> []) xs"

text \<open>The characters below 256 that \<^verbatim>\<open>str.isspace\<close> accepts.\<close>

definition is_space :: "char \<Rightarrow> bool" where
  "is_space c = (c \<in> set [CHR '' '', CHR 0x09, CHR 0x0A, CHR 0x0B, CHR 0x0C, CHR 0x0D,
                           CHR 0x1C, CHR 0x1D, CHR 0x1E, CHR 0x1F, CHR 0x85, CHR 0xA0])"

definition py_strip :: "string \<Rightarrow> string" where
  "py_strip s = rev (dropWhile is_space (rev (dropWhile is_space s)))"

fun py_split_ws_acc :: "string \<Rightarrow> string \<Rightarrow> string list" where
  "py_split_ws_acc w [] = (if w = [] then [] else [rev w])"
| "py_split_ws_acc w (c # cs) =
     (if is_space c then (if w = [] then py_split_ws_acc [] cs else rev w # py_split_ws_acc [] cs)
      else py_split_ws_acc (c # w) cs)"

definition py_split_ws :: "string \<Rightarrow> string list" where
  "py_split_ws s = py_split_ws_acc [] s"

subsection \<open>\<^verbatim>\<open>'{}'.format(n)\<close> and \<^verbatim>\<open>int(s)\<close>\<close>

definition digit_char :: "nat \<Rightarrow> char" where
  "digit_char d = ''0123456789'' ! (d mod 10)"

function str_of_nat :: "nat \<Rightarrow> string" where
  "str_of_nat n =
     (if n < 10 then [digit_char n] else str_of_nat (n div 10) @ [digit_char (n mod 10)])"
  by pat_completeness auto
termination
  by (relation "measure (\<lambda>n. n)") auto

declare str_of_nat.simps [simp del]

definition str_of_int :: "int \<Rightarrow> string" where
  "str_of_int i = (if i < 0 then CHR ''-'' # str_of_nat (nat (- i)) else str_of_nat (nat i))"

definition digit_val :: "char \<Rightarrow> nat option" where
  "digit_val c = map_of (zip ''0123456789'' [0, 1, 2, 3, 4, 5, 6, 7, 8, 9]) c"

text \<open>
  The white space that \<^verbatim>\<open>int(s)\<close> skips at both ends of \<open>s\<close>: the space, 0x09 to
  0x0D, and the white space beyond ASCII (0x85 and 0xA0), which it reads as a space. The
  separators 0x1C to 0x1F, which \<^verbatim>\<open>str.strip\<close> removes, are not skipped: with one of
  them \<^verbatim>\<open>int\<close> raises \<^verbatim>\<open>ValueError\<close>.
\<close>

definition is_int_space :: "char \<Rightarrow> bool" where
  "is_int_space c = (c \<in> set [CHR '' '', CHR 0x09, CHR 0x0A, CHR 0x0B, CHR 0x0C, CHR 0x0D,
                               CHR 0x85, CHR 0xA0])"

definition int_strip :: "string \<Rightarrow> string" where
  "int_strip s = rev (dropWhile is_int_space (rev (dropWhile is_int_space s)))"

text \<open>
  The digits of \<^verbatim>\<open>int(s)\<close>: decimal digits, where single underscores may stand
  between two digits. \<open>after_digit\<close> says that the character before was a digit.
\<close>

fun digits_acc :: "bool \<Rightarrow> nat \<Rightarrow> string \<Rightarrow> nat option" where
  "digits_acc after_digit acc [] = (if after_digit then Some acc else None)"
| "digits_acc after_digit acc (c # cs) =
     (case digit_val c of
        Some d \<Rightarrow> digits_acc True (acc * 10 + d) cs
      | None \<Rightarrow> (if c = CHR ''_'' \<and> after_digit then digits_acc False acc cs else None))"

definition int_of_str :: "string \<Rightarrow> py_error + int" where
  "int_of_str s =
     (case int_strip s of
        [] \<Rightarrow> Inl ValueError
      | c # cs \<Rightarrow>
          (if c = CHR ''-'' then
             (case digits_acc False 0 cs of None \<Rightarrow> Inl ValueError | Some n \<Rightarrow> Inr (- int n))
           else if c = CHR ''+'' then
             (case digits_acc False 0 cs of None \<Rightarrow> Inl ValueError | Some n \<Rightarrow> Inr (int n))
           else
             (case digits_acc False 0 (c # cs) of None \<Rightarrow> Inl ValueError | Some n \<Rightarrow> Inr (int n))))"

section \<open>The data the plugins work on\<close>

text \<open>
  A stream descriptor of the probe: the dictionary \<^verbatim>\<open>stream_info\<close>. Each
  field is \<open>None\<close> when the key is absent (what \<^verbatim>\<open>stream_info.get\<close> returns).
\<close>

record stream_info =
  index :: "int option"
  codec_type :: "string option"
  codec_name :: "string option"
  channels :: "int option"
  tags :: "(string \<times> string) list option"

record probe =
  streams :: "stream_info list"

text \<open>A value of a settings form field: unset, a number, or the text typed in.\<close>

datatype setting_value = SNone | SInt int | SStr string

fun py_truthy :: "setting_value \<Rightarrow> bool" where
  "py_truthy SNone = False"
| "py_truthy (SInt i) = (i \<noteq> 0)"
| "py_truthy (SStr s) = (s \<noteq> [])"

fun py_int :: "setting_value \<Rightarrow> py_error + int" where
  "py_int SNone = Inl TypeError"
| "py_int (SInt i) = Inr i"
| "py_int (SStr s) = int_of_str s"

fun py_format :: "setting_value \<Rightarrow> string" where
  "py_format SNone = ''None''"
| "py_format (SInt i) = str_of_int i"
| "py_format (SStr s) = s"

text \<open>
  The fragments a \<^verbatim>\<open>custom_stream_mapping\<close> returns: the dictionary with the keys
  \<^verbatim>\<open>stream_mapping\<close> and \<^verbatim>\<open>stream_encoding\<close>.
\<close>

record fragments =
  stream_mapping :: "string list"
  stream_encoding :: "string list"

text \<open>
  Modelled from the spec: the state of \<^verbatim>\<open>StreamMapper\<close> (the class of
  \<^verbatim>\<open>lib/ffmpeg\<close>, which is not among the sources) that the plugins read and set:
  the codec types it considers, the probe, the input and output file, and the count of
  audio streams.
\<close>

record mapper =
  processing_stream_type :: "string list"
  mapper_probe :: "probe option"
  input_file :: "string option"
  output_file :: "string option"
  audio_stream_count :: int

definition StreamMapper_init :: "string list \<Rightarrow> mapper" where
  "StreamMapper_init types =
     \<lparr>processing_stream_type = types, mapper_probe = None, input_file = None,
      output_file = None, audio_stream_count = 0\<rparr>"

definition set_probe :: "probe \<Rightarrow> mapper \<Rightarrow> mapper" where
  "set_probe p m = m\<lparr>mapper_probe := Some p\<rparr>"

definition set_input_file :: "string \<Rightarrow> mapper \<Rightarrow> mapper" where
  "set_input_file f m = m\<lparr>input_file := Some f\<rparr>"

definition set_output_file :: "string \<Rightarrow> mapper \<Rightarrow> mapper" where
  "set_output_file f m = m\<lparr>output_file := Some f\<rparr>"

definition format_opt_str :: "string option \<Rightarrow> string" where
  "format_opt_str x = (case x of None \<Rightarrow> ''None'' | Some s \<Rightarrow> s)"

definition format_opt_int :: "int option \<Rightarrow> string" where
  "format_opt_int x = (case x of None \<Rightarrow> ''None'' | Some i \<Rightarrow> str_of_int i)"

section \<open>Plugin \<^verbatim>\<open>encoder_audio_custom\<close>\<close>

record eac_settings =
  advanced :: bool
  custom_options :: string
  if_not_found :: string
  use_codec_lib :: string
  bitrate :: setting_value

text \<open>The class attribute \<^verbatim>\<open>Settings.settings\<close>: the default configuration.\<close>

definition eac_default_settings :: eac_settings where
  "eac_default_settings =
     \<lparr>advanced = False, custom_options = [], if_not_found = ''opus'',
      use_codec_lib = ''libopus'', bitrate = SInt 0\<rparr>"

definition calculate_bitrate :: "stream_info \<Rightarrow> int \<times> event list" where
  "calculate_bitrate stream_info =
     (case channels stream_info of
        None \<Rightarrow>
          (64, [LogDebug ''Stream did not contain 'channels'. Using community default (64k).''])
      | Some c \<Rightarrow>
          (if c = 0 then
             (64, [LogDebug ''Stream did not contain 'channels'. Using community default (64k).''])
           else
             (64 * c,
              [LogDebug (''Based on Number of Channels ('' @ str_of_int c
                 @ '') we calculated the bitrate to be ('' @ str_of_int (64 * c) @ ''k)'')])))"

definition eac_test_stream_needs_processing ::
  "eac_settings \<Rightarrow> mapper \<Rightarrow> stream_info \<Rightarrow> py_error + bool \<times> event list" where
  "eac_test_stream_needs_processing settings self stream_info =
     (case codec_name stream_info of
        None \<Rightarrow> Inl AttributeError
      | Some name \<Rightarrow>
          (if py_lower name \<in> set [if_not_found settings] then Inr (False, [])
           else Inr (True, [])))"

text \<open>
  The bitrate of \<^verbatim>\<open>custom_stream_mapping\<close>: the configured one, or the calculated one
  \<^verbatim>\<open>if not bitrate or int(bitrate) == 0\<close>; \<^verbatim>\<open>int\<close> raises on a text that is no number.
\<close>

definition eac_bitrate :: "eac_settings \<Rightarrow> stream_info \<Rightarrow> py_error + string \<times> event list" where
  "eac_bitrate settings stream_info =
     (if py_truthy (bitrate settings) then
        (case py_int (bitrate settings) of
           Inl e \<Rightarrow> Inl e
         | Inr i \<Rightarrow>
             (if i = 0 then
                Inr (str_of_int (fst (calculate_bitrate stream_info)),
                     snd (calculate_bitrate stream_info))
              else Inr (py_format (bitrate settings), [])))
      else
        Inr (str_of_int (fst (calculate_bitrate stream_info)),
             snd (calculate_bitrate stream_info)))"

definition eac_custom_stream_mapping ::
  "eac_settings \<Rightarrow> mapper \<Rightarrow> stream_info \<Rightarrow> int \<Rightarrow> py_error + fragments \<times> event list" where
  "eac_custom_stream_mapping settings self stream_info stream_id =
     (let toCodec = use_codec_lib settings;
          stream_encoding0 = [''-c:a:'' @ str_of_int stream_id, toCodec]
      in case eac_bitrate settings stream_info of
           Inl e \<Rightarrow> Inl e
         | Inr (bitrate_text, log) \<Rightarrow>
             (let stream_encoding1 = stream_encoding0 @
                    [''-b:a:'' @ str_of_int stream_id,
                     bitrate_text @ ''k'',
                     ''-ac:a:'' @ str_of_int stream_id,
                     (case channels stream_info of None \<Rightarrow> str_of_int 0 | Some c \<Rightarrow> str_of_int c),
                     ''-af:a:'' @ str_of_int stream_id,
                     ''aformat='' @ ''channel_layouts='7.1|5.1|stereo|mono'' @ [CHR 0x27]];
                  stream_encoding2 =
                    (if advanced settings
                     then stream_encoding1 @ py_split_ws (custom_options settings)
                     else stream_encoding1)
              in Inr (\<lparr>stream_mapping = [''-map'', ''0:a:'' @ str_of_int stream_id],
                        stream_encoding = stream_encoding2\<rparr>, log)))"

section \<open>Plugin \<^verbatim>\<open>remove_stream_by_language\<close>\<close>

record rsbl_settings =
  languages_audio :: string
  languages_subtitle :: string
  title_audio_or_sub :: string

definition rsbl_default_settings :: rsbl_settings where
  "rsbl_default_settings =
     \<lparr>languages_audio = [], languages_subtitle = [], title_audio_or_sub = []\<rparr>"

text \<open>
  \<^verbatim>\<open>stream_tags and True in list(k.lower() in [name] for k in stream_tags)\<close>: the tags
  are there, not empty, and one of their keys is \<open>name\<close> in some letter case.
\<close>

definition has_tag_key :: "string \<Rightarrow> (string \<times> string) list option \<Rightarrow> bool" where
  "has_tag_key name stream_tags =
     (case stream_tags of
        None \<Rightarrow> False
      | Some ts \<Rightarrow>
          (if ts = [] then False
           else True \<in> set (map (\<lambda>k. py_lower k \<in> set [name]) (map fst ts))))"

text \<open>\<^verbatim>\<open>stream_tags.get(key, '')\<close>: the value under exactly this key.\<close>

definition tags_get :: "(string \<times> string) list option \<Rightarrow> string \<Rightarrow> string" where
  "tags_get stream_tags key =
     (case stream_tags of
        None \<Rightarrow> []
      | Some ts \<Rightarrow> (case map_of ts key of None \<Rightarrow> [] | Some v \<Rightarrow> v))"

text \<open>The loop over the configured phrases: true at the first one the title contains.\<close>

fun title_loop :: "string list \<Rightarrow> string \<Rightarrow> bool" where
  "title_loop [] title = False"
| "title_loop (t # titles) title =
     (if py_in (py_lower t) title then True else title_loop titles title)"

text \<open>The loop over the configured languages: true at the first one the tag contains.\<close>

fun language_loop :: "string list \<Rightarrow> (string \<times> string) list option \<Rightarrow> bool" where
  "language_loop [] stream_tags = False"
| "language_loop (l # languages) stream_tags =
     (let language = py_strip l in
      if language \<noteq> [] \<and> py_in (py_lower language) (py_lower (tags_get stream_tags ''language''))
      then True
      else language_loop languages stream_tags)"

text \<open>The first block of \<^verbatim>\<open>test_tags_for_search_string\<close>: does it return True?\<close>

definition title_found :: "rsbl_settings \<Rightarrow> (string \<times> string) list option \<Rightarrow> bool" where
  "title_found settings stream_tags =
     (if has_tag_key ''title'' stream_tags then
        (let titles_list = title_audio_or_sub settings in
         if titles_list \<noteq> [] then
           (let title = py_lower (tags_get stream_tags ''title'');
                titles = filter_None (py_split CHR '','' titles_list)
            in title_loop titles title)
         else False)
      else False)"

text \<open>
  The rest of the language block, once the list is chosen: \<^verbatim>\<open>if not language_list:
  return False\<close>, then the loop, then the final \<^verbatim>\<open>return False\<close>.
\<close>

definition language_search :: "string \<Rightarrow> (string \<times> string) list option \<Rightarrow> bool \<times> event list" where
  "language_search language_list stream_tags =
     (if language_list = [] then (False, [])
      else (let languages = filter_None (py_split CHR '','' language_list)
            in (language_loop languages stream_tags, [])))"

definition test_tags_for_search_string ::
  "rsbl_settings \<Rightarrow> mapper \<Rightarrow> (string \<times> string) list option \<Rightarrow> int option \<Rightarrow> string
     \<Rightarrow> bool \<times> event list" where
  "test_tags_for_search_string settings self stream_tags stream_id ctype =
     (if title_found settings stream_tags then (True, [])
      else if has_tag_key ''language'' stream_tags then
        (if ctype = ''subtitle'' then language_search (languages_subtitle settings) stream_tags
         else if audio_stream_count self \<le> 1 then
           (False, [LogWarning (''Video file '' @ [CHR 0x27] @ format_opt_str (input_file self)
                      @ [CHR 0x27] @ '' has only 1 audio stream skipping strip.'')])
         else language_search (languages_audio settings) stream_tags)
      else
        (False, [LogWarning (''Audio/Subtitle stream #'' @ format_opt_int stream_id
                   @ '' in file '' @ [CHR 0x27] @ format_opt_str (input_file self) @ [CHR 0x27]
                   @ '' has no 'language' tag. Ignoring.'')]))"

definition rsbl_test_stream_needs_processing ::
  "rsbl_settings \<Rightarrow> mapper \<Rightarrow> stream_info \<Rightarrow> py_error + bool \<times> event list" where
  "rsbl_test_stream_needs_processing settings self stream_info =
     (case codec_type stream_info of
        None \<Rightarrow> Inl AttributeError
      | Some ct \<Rightarrow>
          (let r = test_tags_for_search_string settings self (tags stream_info)
                     (index stream_info) (py_lower ct)
           in if fst r then Inr (True, snd r) else Inr (False, snd r)))"

definition rsbl_custom_stream_mapping ::
  "mapper \<Rightarrow> stream_info \<Rightarrow> int \<Rightarrow> py_error + fragments \<times> event list" where
  "rsbl_custom_stream_mapping self stream_info stream_id =
     Inr (\<lparr>stream_mapping = [], stream_encoding = []\<rparr>, [])"

section \<open>The hooks of the host\<close>

text \<open>
  The helper library \<^verbatim>\<open>lib/ffmpeg\<close> (\<^verbatim>\<open>Probe\<close>, \<^verbatim>\<open>StreamMapper\<close>,
  \<^verbatim>\<open>Parser\<close>) is not among the sources. What the hooks call of it is a parameter:
  \<^item> \<open>probe_file types path\<close> is \<^verbatim>\<open>Probe(logger, allowed_mimetypes=types).file(path)\<close>:
    \<open>None\<close> when the call returns a falsy value, the probe otherwise;
  \<^item> \<open>streams_need_processing test build mapper\<close> is the method of that name, which calls
    the plugin's \<^verbatim>\<open>test_stream_needs_processing\<close> and \<^verbatim>\<open>custom_stream_mapping\<close>;
    it may raise what they raise;
  \<^item> \<open>get_ffmpeg_args test build mapper\<close> is the argument list of the command.
\<close>

type_synonym predicate = "mapper \<Rightarrow> stream_info \<Rightarrow> py_error + bool \<times> event list"

type_synonym builder = "mapper \<Rightarrow> stream_info \<Rightarrow> int \<Rightarrow> py_error + fragments \<times> event list"

record ffmpeg_lib =
  probe_file :: "string list \<Rightarrow> string \<Rightarrow> probe option"
  streams_need_processing :: "predicate \<Rightarrow> builder \<Rightarrow> mapper \<Rightarrow> py_error + (bool \<times> mapper) \<times> event list"
  get_ffmpeg_args :: "predicate \<Rightarrow> builder \<Rightarrow> mapper \<Rightarrow> py_error + string list"

text \<open>The \<^verbatim>\<open>data\<close> dictionaries of the two hooks.\<close>

record file_test_data =
  path :: string
  issues :: "string list"
  add_file_to_pending_tasks :: bool

text \<open>
  \<open>command_progress_parser\<close> is \<open>None\<close> while unset, and the probe the parser was given
  once the hook has stored \<^verbatim>\<open>parser.parse_progress\<close>.
\<close>

record worker_data =
  exec_command :: "string list"
  command_progress_parser :: "probe option"
  file_in :: string
  file_out :: string
  original_file_path :: string
  repeat :: bool

text \<open>What \<^verbatim>\<open>on_library_management_file_test\<close> returns: \<^verbatim>\<open>False\<close> or the data.\<close>

datatype file_test_result = ReturnFalse | ReturnData file_test_data

definition eac_PluginStreamMapper :: mapper where
  "eac_PluginStreamMapper = StreamMapper_init [''audio'']"

definition rsbl_PluginStreamMapper :: mapper where
  "rsbl_PluginStreamMapper = StreamMapper_init [''audio'', ''subtitle'']"

definition eac_on_library_management_file_test ::
  "ffmpeg_lib \<Rightarrow> eac_settings \<Rightarrow> file_test_data \<Rightarrow> py_error + file_test_result \<times> event list" where
  "eac_on_library_management_file_test lib settings data =
     (let abspath = path data in
      case probe_file lib [''audio'', ''video''] abspath of
        None \<Rightarrow> Inr (ReturnData data, [ProbeFile [''audio'', ''video''] abspath])
      | Some probe \<Rightarrow>
          (let mapper = set_probe probe eac_PluginStreamMapper in
           case streams_need_processing lib (eac_test_stream_needs_processing settings)
                  (eac_custom_stream_mapping settings) mapper of
             Inl e \<Rightarrow> Inl e
           | Inr ((needs, mapper'), log) \<Rightarrow>
               (if needs then
                  Inr (ReturnData (data\<lparr>add_file_to_pending_tasks := True\<rparr>),
                       ProbeFile [''audio'', ''video''] abspath # log @
                       [LogDebug (''File '' @ [CHR 0x27] @ abspath @ [CHR 0x27]
                          @ '' should be added to task list. Probe found streams require processing.'')])
                else
                  Inr (ReturnData data,
                       ProbeFile [''audio'', ''video''] abspath # log @
                       [LogDebug (''File '' @ [CHR 0x27] @ abspath @ [CHR 0x27]
                          @ '' does not contain streams require processing.'')]))))"

definition eac_on_worker_process ::
  "ffmpeg_lib \<Rightarrow> eac_settings \<Rightarrow> worker_data \<Rightarrow> py_error + worker_data \<times> event list" where
  "eac_on_worker_process lib settings data0 =
     (let data = data0\<lparr>exec_command := [], repeat := False\<rparr>;
          abspath = file_in data in
      case probe_file lib [''audio'', ''video''] abspath of
        None \<Rightarrow> Inr (data, [ProbeFile [''audio'', ''video''] abspath])
      | Some probe \<Rightarrow>
          (let mapper = set_probe probe eac_PluginStreamMapper in
           case streams_need_processing lib (eac_test_stream_needs_processing settings)
                  (eac_custom_stream_mapping settings) mapper of
             Inl e \<Rightarrow> Inl e
           | Inr ((needs, mapper1), log) \<Rightarrow>
               (if needs then
                  (let mapper2 = set_input_file abspath mapper1;
                       mapper3 = set_output_file (file_out data) mapper2 in
                   case get_ffmpeg_args lib (eac_test_stream_needs_processing settings)
                          (eac_custom_stream_mapping settings) mapper3 of
                     Inl e \<Rightarrow> Inl e
                   | Inr ffmpeg_args \<Rightarrow>
                       Inr (data\<lparr>exec_command := [''ffmpeg''] @ ffmpeg_args,
                                  command_progress_parser := Some probe\<rparr>,
                            ProbeFile [''audio'', ''video''] abspath # log))
                else Inr (data, ProbeFile [''audio'', ''video''] abspath # log))))"

definition rsbl_on_library_management_file_test ::
  "ffmpeg_lib \<Rightarrow> rsbl_settings \<Rightarrow> file_test_data \<Rightarrow> py_error + file_test_result \<times> event list" where
  "rsbl_on_library_management_file_test lib settings data =
     (if languages_subtitle settings = [] \<and> languages_audio settings = [] then
        Inr (ReturnFalse,
             [LogDebug ''Plugin has not yet been configured with a list of languages to remove. Blocking everything.''])
      else
        (let abspath = path data in
         case probe_file lib [''video''] abspath of
           None \<Rightarrow> Inr (ReturnData data, [ProbeFile [''video''] abspath])
         | Some probe \<Rightarrow>
             (let mapper0 = set_probe probe rsbl_PluginStreamMapper;
                  mapper = set_input_file abspath mapper0 in
              case streams_need_processing lib (rsbl_test_stream_needs_processing settings)
                     rsbl_custom_stream_mapping mapper of
                Inl e \<Rightarrow> Inl e
              | Inr ((needs, mapper'), log) \<Rightarrow>
                  (if needs then
                     Inr (ReturnData (data\<lparr>add_file_to_pending_tasks := True\<rparr>),
                          ProbeFile [''video''] abspath # log @
                          [LogDebug (''File '' @ [CHR 0x27] @ abspath @ [CHR 0x27]
                             @ '' should be added to task list. Probe found streams require processing.'')])
                   else
                     Inr (ReturnData data,
                          ProbeFile [''video''] abspath # log @
                          [LogDebug (''File '' @ [CHR 0x27] @ abspath @ [CHR 0x27]
                             @ '' does not contain streams that require processing.'')])))))"

definition rsbl_on_worker_process ::
  "ffmpeg_lib \<Rightarrow> rsbl_settings \<Rightarrow> worker_data \<Rightarrow> py_error + worker_data \<times> event list" where
  "rsbl_on_worker_process lib settings data0 =
     (let data = data0\<lparr>exec_command := [], repeat := False\<rparr>;
          abspath = file_in data in
      case probe_file lib [''video''] abspath of
        None \<Rightarrow> Inr (data, [ProbeFile [''video''] abspath])
      | Some probe \<Rightarrow>
          (let mapper0 = set_probe probe rsbl_PluginStreamMapper;
               mapper = set_input_file abspath mapper0 in
           case streams_need_processing lib (rsbl_test_stream_needs_processing settings)
                  rsbl_custom_stream_mapping mapper of
             Inl e \<Rightarrow> Inl e
           | Inr ((needs, mapper1), log) \<Rightarrow>
               (if needs then
                  (let mapper2 = set_output_file (file_out data) mapper1 in
                   case get_ffmpeg_args lib (rsbl_test_stream_needs_processing settings)
                          rsbl_custom_stream_mapping mapper2 of
                     Inl e \<Rightarrow> Inl e
                   | Inr ffmpeg_args \<Rightarrow>
                       Inr (data\<lparr>exec_command := [''ffmpeg''] @ ffmpeg_args,
                                  command_progress_parser := Some probe\<rparr>,
                            ProbeFile [''video''] abspath # log))
                else Inr (data, ProbeFile [''video''] abspath # log))))"

section \<open>The stream mapper of the helper library\<close>

text \<open>
  Modelled from the spec: the evaluation of \<^verbatim>\<open>StreamMapper\<close> (\<^verbatim>\<open>lib/ffmpeg\<close>,
  not among the sources), as the spec's section 4.2 words it. For each stream in probe
  order: a stream whose codec type is not one of the mapper's is skipped; otherwise its
  \<open>stream_id\<close> is the running count of its codec type, which is then incremented; the
  predicate is asked; where it is true the builder's two fragments are appended and the
  verdict becomes true. What the predicate or the builder raises ends the evaluation.
\<close>

fun evaluate ::
  "predicate \<Rightarrow> builder \<Rightarrow> mapper \<Rightarrow> (string \<Rightarrow> int) \<Rightarrow> stream_info list
     \<Rightarrow> py_error + (bool \<times> fragments) \<times> event list" where
  "evaluate test build m count [] =
     Inr ((False, \<lparr>stream_mapping = [], stream_encoding = []\<rparr>), [])"
| "evaluate test build m count (s # ss) =
     (case codec_type s of
        None \<Rightarrow> evaluate test build m count ss
      | Some ct \<Rightarrow>
          (if ct \<in> set (processing_stream_type m) then
             (let stream_id = count ct;
                  count' = count(ct := stream_id + 1)
              in case test m s of
                   Inl e \<Rightarrow> Inl e
                 | Inr (needs, log) \<Rightarrow>
                     (if needs then
                        (case build m s stream_id of
                           Inl e \<Rightarrow> Inl e
                         | Inr (frag, log1) \<Rightarrow>
                             (case evaluate test build m count' ss of
                                Inl e \<Rightarrow> Inl e
                              | Inr ((needs', acc), log2) \<Rightarrow>
                                  Inr ((True,
                                        \<lparr>stream_mapping = stream_mapping frag @ stream_mapping acc,
                                         stream_encoding = stream_encoding frag @ stream_encoding acc\<rparr>),
                                       log @ log1 @ log2)))
                      else
                        (case evaluate test build m count' ss of
                           Inl e \<Rightarrow> Inl e
                         | Inr (r, log2) \<Rightarrow> Inr (r, log @ log2))))
           else evaluate test build m count ss))"

text \<open>
  Modelled from the spec: the file-level context the predicate may read, the total of
  audio streams in the mapper's scope.
\<close>

definition count_audio :: "probe \<Rightarrow> int" where
  "count_audio p = int (length (filter (\<lambda>s. codec_type s = Some ''audio'') (streams p)))"

text \<open>
  Modelled from the spec: \<^verbatim>\<open>streams_need_processing\<close> of \<^verbatim>\<open>StreamMapper\<close>, the
  verdict of the evaluation.
\<close>

definition spec_streams_need_processing ::
  "predicate \<Rightarrow> builder \<Rightarrow> mapper \<Rightarrow> py_error + (bool \<times> mapper) \<times> event list" where
  "spec_streams_need_processing test build m =
     (case mapper_probe m of
        None \<Rightarrow> Inr ((False, m), [])
      | Some p \<Rightarrow>
          (let m' = m\<lparr>audio_stream_count := count_audio p\<rparr> in
           case evaluate test build m' (\<lambda>t. 0) (streams p) of
             Inl e \<Rightarrow> Inl e
           | Inr ((needs, acc), log) \<Rightarrow> Inr ((needs, m'), log)))"

text \<open>
  Modelled from the spec: the command assembler of section 4.5, \<^verbatim>\<open>get_ffmpeg_args\<close>:
  the accumulated fragments and the output path, and the empty list when nothing needs
  processing.
\<close>

definition spec_get_ffmpeg_args ::
  "predicate \<Rightarrow> builder \<Rightarrow> mapper \<Rightarrow> py_error + string list" where
  "spec_get_ffmpeg_args test build m =
     (case mapper_probe m of
        None \<Rightarrow> Inr []
      | Some p \<Rightarrow>
          (case evaluate test build m (\<lambda>t. 0) (streams p) of
             Inl e \<Rightarrow> Inl e
           | Inr ((needs, acc), log) \<Rightarrow>
               (if needs
                then Inr (stream_mapping acc @ stream_encoding acc @ [format_opt_str (output_file m)])
                else Inr [])))"

text \<open>The library over a file system \<open>files\<close>, which gives the probe of each path.\<close>

definition spec_lib :: "(string \<Rightarrow> probe option) \<Rightarrow> ffmpeg_lib" where
  "spec_lib files =
     \<lparr>probe_file = (\<lambda>types abspath. files abspath),
      streams_need_processing = spec_streams_need_processing,
      get_ffmpeg_args = spec_get_ffmpeg_args\<rparr>"

section \<open>Example inputs\<close>

definition video_h264 :: stream_info where
  "video_h264 = \<lparr>index = Some 0, codec_type = Some ''video'', codec_name = Some ''h264'',
                 channels = None, tags = None\<rparr>"

definition audio_stream :: "string \<Rightarrow> int option \<Rightarrow> (string \<times> string) list option \<Rightarrow> stream_info" where
  "audio_stream codec ch tg = \<lparr>index = Some 1, codec_type = Some ''audio'', codec_name = Some codec,
                               channels = ch, tags = tg\<rparr>"

definition example_worker_data :: worker_data where
  "example_worker_data =
     \<lparr>exec_command = [''stale''], command_progress_parser = None, file_in = ''/in.mkv'',
      file_out = ''/out.mkv'', original_file_path = ''/in.mkv'', repeat = True\<rparr>"

definition example_file_test_data :: file_test_data where
  "example_file_test_data = \<lparr>path = ''/in.mkv'', issues = [], add_file_to_pending_tasks = False\<rparr>"

text \<open>A mapper of the removal plugin as the hooks set it up, with a given audio count.\<close>

definition rsbl_mapper :: "int \<Rightarrow> mapper" where
  "rsbl_mapper n = (set_input_file ''/in.mkv'' rsbl_PluginStreamMapper)\<lparr>audio_stream_count := n\<rparr>"

text \<open>Two probed files: one whose only audio stream is Opus and tagged English, and one
  with a commentary track beside the main audio.\<close>

definition opus_file :: "string \<Rightarrow> probe option" where
  "opus_file f =
     (if f = ''/in.mkv'' then
        Some \<lparr>streams = [video_h264,
                         audio_stream ''opus'' (Some 2) (Some [(''language'', ''eng'')])]\<rparr>
      else None)"

definition commentary_file :: "string \<Rightarrow> probe option" where
  "commentary_file f =
     (if f = ''/in.mkv'' then
        Some \<lparr>streams = [video_h264,
                         audio_stream ''aac'' (Some 2) (Some [(''language'', ''eng'')]),
                         audio_stream ''aac'' (Some 2)
                           (Some [(''language'', ''eng''), (''title'', ''Commentary'')])]\<rparr>
      else None)"

section \<open>Facts about the helpers\<close>

text \<open>The table of \<open>lower_char\<close>, pair by pair.\<close>

lemma lower_table:
  "zip upper_chars lower_chars =
     [(CHR ''A'', CHR ''a''), (CHR ''B'', CHR ''b''), (CHR ''C'', CHR ''c''), (CHR ''D'', CHR ''d''),
      (CHR ''E'', CHR ''e''), (CHR ''F'', CHR ''f''), (CHR ''G'', CHR ''g''), (CHR ''H'', CHR ''h''),
      (CHR ''I'', CHR ''i''), (CHR ''J'', CHR ''j''), (CHR ''K'', CHR ''k''), (CHR ''L'', CHR ''l''),
      (CHR ''M'', CHR ''m''), (CHR ''N'', CHR ''n''), (CHR ''O'', CHR ''o''), (CHR ''P'', CHR ''p''),
      (CHR ''Q'', CHR ''q''), (CHR ''R'', CHR ''r''), (CHR ''S'', CHR ''s''), (CHR ''T'', CHR ''t''),
      (CHR ''U'', CHR ''u''), (CHR ''V'', CHR ''v''), (CHR ''W'', CHR ''w''), (CHR ''X'', CHR ''x''),
      (CHR ''Y'', CHR ''y''), (CHR ''Z'', CHR ''z''), (CHR 0xC0, CHR 0xE0), (CHR 0xC1, CHR 0xE1),
      (CHR 0xC2, CHR 0xE2), (CHR 0xC3, CHR 0xE3), (CHR 0xC4, CHR 0xE4), (CHR 0xC5, CHR 0xE5),
      (CHR 0xC6, CHR 0xE6), (CHR 0xC7, CHR 0xE7), (CHR 0xC8, CHR 0xE8), (CHR 0xC9, CHR 0xE9),
      (CHR 0xCA, CHR 0xEA), (CHR 0xCB, CHR 0xEB), (CHR 0xCC, CHR 0xEC), (CHR 0xCD, CHR 0xED),
      (CHR 0xCE, CHR 0xEE), (CHR 0xCF, CHR 0xEF), (CHR 0xD0, CHR 0xF0), (CHR 0xD1, CHR 0xF1),
      (CHR 0xD2, CHR 0xF2), (CHR 0xD3, CHR 0xF3), (CHR 0xD4, CHR 0xF4), (CHR 0xD5, CHR 0xF5),
      (CHR 0xD6, CHR 0xF6), (CHR 0xD8, CHR 0xF8), (CHR 0xD9, CHR 0xF9), (CHR 0xDA, CHR 0xFA),
      (CHR 0xDB, CHR 0xFB), (CHR 0xDC, CHR 0xFC), (CHR 0xDD, CHR 0xFD), (CHR 0xDE, CHR 0xFE)]"
  by (simp add: upper_chars_def lower_chars_def)

lemmas string_eval =
  py_lower_def lower_char_def lower_table filter_None_def py_strip_def is_space_def

lemmas number_eval =
  str_of_int_def str_of_nat.simps digit_char_def

lemmas rsbl_eval =
  rsbl_test_stream_needs_processing_def test_tags_for_search_string_def title_found_def
  has_tag_key_def tags_get_def language_search_def rsbl_mapper_def set_input_file_def
  rsbl_PluginStreamMapper_def StreamMapper_init_def audio_stream_def format_opt_str_def
  format_opt_int_def

lemmas eac_eval =
  eac_test_stream_needs_processing_def eac_custom_stream_mapping_def eac_default_settings_def
  eac_bitrate_def calculate_bitrate_def audio_stream_def eac_PluginStreamMapper_def
  StreamMapper_init_def

lemmas lib_eval =
  spec_lib_def spec_streams_need_processing_def spec_get_ffmpeg_args_def count_audio_def
  set_probe_def set_input_file_def set_output_file_def video_h264_def example_worker_data_def
  example_file_test_data_def

text \<open>\<open>py_in a b\<close> is Python's \<^verbatim>\<open>a in b\<close>: \<open>b\<close> is \<open>a\<close> between two other pieces.\<close>

lemma starts_with_iff: "starts_with a b \<longleftrightarrow> (\<exists>s. b = a @ s)"
  by (induction a b rule: starts_with.induct) auto

lemma py_in_iff: "py_in a b \<longleftrightarrow> (\<exists>p s. b = p @ a @ s)"
proof (induction b)
  case Nil
  then show ?case by auto
next
  case (Cons c cs)
  show ?case
  proof
    assume "py_in a (c # cs)"
    then consider "starts_with a (c # cs)" | "py_in a cs" by (auto split: if_splits)
    then show "\<exists>p s. c # cs = p @ a @ s"
    proof cases
      case 1
      then obtain s where "c # cs = a @ s" by (auto simp: starts_with_iff)
      then have "c # cs = [] @ a @ s" by simp
      then show ?thesis by blast
    next
      case 2
      then obtain p s where "cs = p @ a @ s" using Cons.IH by blast
      then have "c # cs = (c # p) @ a @ s" by simp
      then show ?thesis by blast
    qed
  next
    assume "\<exists>p s. c # cs = p @ a @ s"
    then obtain p s where ps: "c # cs = p @ a @ s" by blast
    show "py_in a (c # cs)"
    proof (cases p)
      case Nil
      then have "starts_with a (c # cs)" using ps by (auto simp: starts_with_iff)
      then show ?thesis by simp
    next
      case (Cons x p')
      then have "cs = p' @ a @ s" using ps by simp
      then have "py_in a cs" using Cons.IH by blast
      then show ?thesis by simp
    qed
  qed
qed

lemma has_tag_key_iff:
  "has_tag_key name stream_tags \<longleftrightarrow> (\<exists>ts. stream_tags = Some ts \<and> name \<in> py_lower ` fst ` set ts)"
  by (auto simp: has_tag_key_def split: option.splits)

lemma title_loop_iff: "title_loop titles title \<longleftrightarrow> (\<exists>t \<in> set titles. py_in (py_lower t) title)"
  by (induction titles) auto

lemma language_loop_iff:
  "language_loop languages stream_tags \<longleftrightarrow>
     (\<exists>l \<in> set languages. py_strip l \<noteq> [] \<and>
        py_in (py_lower (py_strip l)) (py_lower (tags_get stream_tags ''language'')))"
  by (induction languages) (auto simp: Let_def)

lemma title_found_iff:
  "title_found settings stream_tags \<longleftrightarrow>
     has_tag_key ''title'' stream_tags \<and>
     (\<exists>t \<in> set (filter_None (py_split CHR '','' (title_audio_or_sub settings))).
        py_in (py_lower t) (py_lower (tags_get stream_tags ''title'')))"
  by (cases "title_audio_or_sub settings = []")
    (simp_all add: title_found_def Let_def title_loop_iff filter_None_def)

text \<open>
  The guard of the language block: with at most one audio stream, a stream that is no
  subtitle and whose title matches no phrase is never selected, whatever its language.
\<close>

lemma language_guard:
  "audio_stream_count self \<le> 1 \<Longrightarrow> ctype \<noteq> ''subtitle'' \<Longrightarrow> \<not> title_found settings stream_tags
     \<Longrightarrow> fst (test_tags_for_search_string settings self stream_tags stream_id ctype) = False"
  by (simp add: test_tags_for_search_string_def)

text \<open>
  The codec predicate is false exactly when the lowercased codec name is the configured
  text as it was typed.
\<close>

lemma eac_test_False_iff:
  "eac_test_stream_needs_processing settings self s = Inr (False, log) \<longleftrightarrow>
     log = [] \<and> (\<exists>n. codec_name s = Some n \<and> py_lower n = if_not_found settings)"
  by (auto simp: eac_test_stream_needs_processing_def split: option.splits)

lemma calculate_bitrate_Some:
  "channels s = Some c \<Longrightarrow> c \<noteq> 0 \<Longrightarrow> fst (calculate_bitrate s) = 64 * c"
  by (simp add: calculate_bitrate_def)

lemma calculate_bitrate_unknown:
  "channels s = None \<or> channels s = Some 0 \<Longrightarrow>
     calculate_bitrate s =
       (64, [LogDebug ''Stream did not contain 'channels'. Using community default (64k).''])"
  by (auto simp: calculate_bitrate_def)

lemma eac_bitrate_auto:
  "\<not> py_truthy (bitrate settings) \<or> py_int (bitrate settings) = Inr 0 \<Longrightarrow>
     eac_bitrate settings s =
       Inr (str_of_int (fst (calculate_bitrate s)), snd (calculate_bitrate s))"
  by (auto simp: eac_bitrate_def)

lemma custom_stream_mapping_bitrate:
  "eac_bitrate settings s = Inr (b, log) \<Longrightarrow>
     \<exists>frag. eac_custom_stream_mapping settings self s stream_id = Inr (frag, log) \<and>
       stream_encoding frag ! 2 = ''-b:a:'' @ str_of_int stream_id \<and>
       stream_encoding frag ! 3 = b @ ''k''"
  by (simp add: eac_custom_stream_mapping_def Let_def)

lemma str_64: "str_of_int 64 = ''64''"
  by (simp add: number_eval)

section \<open>The claims\<close>

text \<open>
  Claim C1. Last-audio-track guard: for an audio stream of a file whose audio stream count
  is 1, \<^verbatim>\<open>test_stream_needs_processing\<close> of the removal plugin should return false,
  also when the title tag matches a configured phrase. The code returns from the title
  block before it reaches the guard of the language block: with the phrase
  \<^verbatim>\<open>commentary\<close> configured, the only audio stream of a file, titled
  \<^verbatim>\<open>Director Commentary\<close>, is selected for removal, while the same stream under
  another title is kept by the guard although its language matches.
\<close>

theorem title_match_bypasses_last_audio_guard:
  "rsbl_test_stream_needs_processing
     \<lparr>languages_audio = ''eng'', languages_subtitle = [], title_audio_or_sub = ''commentary''\<rparr>
     (rsbl_mapper 1)
     (audio_stream ''aac'' (Some 2) (Some [(''language'', ''eng''), (''title'', ''Director Commentary'')]))
   = Inr (True, []) \<and>
   rsbl_test_stream_needs_processing
     \<lparr>languages_audio = ''eng'', languages_subtitle = [], title_audio_or_sub = ''commentary''\<rparr>
     (rsbl_mapper 1)
     (audio_stream ''aac'' (Some 2) (Some [(''language'', ''eng''), (''title'', ''Stereo'')]))
   = Inr (False, [LogWarning ''Video file '/in.mkv' has only 1 audio stream skipping strip.''])"
  by (simp add: rsbl_eval string_eval)

text \<open>
  Claim C2. End-to-end re-encode scenario: for a stream with codec name \<^verbatim>\<open>aac\<close> and two
  channels, under the default settings, the predicate of the encoder plugin is true, and
  \<^verbatim>\<open>custom_stream_mapping(stream, 0)\<close> returns the mapping \<^verbatim>\<open>-map 0:a:0\<close> and the
  encoding with \<^verbatim>\<open>libopus\<close>, \<^verbatim>\<open>128k\<close>, two channels and the channel layout filter.
\<close>

theorem end_to_end_aac_stereo:
  "eac_test_stream_needs_processing eac_default_settings self
     \<lparr>index = i, codec_type = t, codec_name = Some ''aac'', channels = Some 2, tags = tg\<rparr>
   = Inr (True, []) \<and>
   eac_custom_stream_mapping eac_default_settings self
     \<lparr>index = i, codec_type = t, codec_name = Some ''aac'', channels = Some 2, tags = tg\<rparr> 0
   = Inr (\<lparr>stream_mapping = [''-map'', ''0:a:0''],
           stream_encoding = [''-c:a:0'', ''libopus'', ''-b:a:0'', ''128k'', ''-ac:a:0'', ''2'',
             ''-af:a:0'', ''aformat=channel_layouts='7.1|5.1|stereo|mono'' @ [CHR 0x27]]\<rparr>,
          [LogDebug ''Based on Number of Channels (2) we calculated the bitrate to be (128k)''])"
  by (simp add: eac_test_stream_needs_processing_def eac_custom_stream_mapping_def
      eac_default_settings_def eac_bitrate_def calculate_bitrate_def string_eval
      str_of_int_def str_of_nat.simps digit_char_def)

text \<open>
  Claim C3, as amended. Bitrate defaulting: when the configured bitrate is unset or equals
  0, the re-encode builder uses \<open>64 * channels\<close> kilobits where the channel count is
  there and not zero (six channels give \<^verbatim>\<open>384k\<close>); where the channel count is absent
  or zero it uses the flat 64 (\<^verbatim>\<open>64k\<close>) and logs the diagnostic.
\<close>

theorem bitrate_defaulting:
  assumes "\<not> py_truthy (bitrate settings) \<or> py_int (bitrate settings) = Inr 0"
  shows "(\<forall>c. channels s = Some c \<and> c \<noteq> 0 \<longrightarrow>
            (\<exists>frag log. eac_custom_stream_mapping settings self s stream_id = Inr (frag, log) \<and>
               stream_encoding frag ! 2 = ''-b:a:'' @ str_of_int stream_id \<and>
               stream_encoding frag ! 3 = str_of_int (64 * c) @ ''k'')) \<and>
         (channels s = None \<or> channels s = Some 0 \<longrightarrow>
            (\<exists>frag. eac_custom_stream_mapping settings self s stream_id =
               Inr (frag, [LogDebug ''Stream did not contain 'channels'. Using community default (64k).'']) \<and>
               stream_encoding frag ! 2 = ''-b:a:'' @ str_of_int stream_id \<and>
               stream_encoding frag ! 3 = ''64k'')) \<and>
         str_of_int (64 * 6) @ ''k'' = ''384k''"
proof (intro conjI allI impI)
  fix c
  assume c: "channels s = Some c \<and> c \<noteq> 0"
  have "eac_bitrate settings s = Inr (str_of_int (64 * c), snd (calculate_bitrate s))"
    using eac_bitrate_auto [OF assms] calculate_bitrate_Some [of s c] c by simp
  from custom_stream_mapping_bitrate [OF this]
  show "\<exists>frag log. eac_custom_stream_mapping settings self s stream_id = Inr (frag, log) \<and>
          stream_encoding frag ! 2 = ''-b:a:'' @ str_of_int stream_id \<and>
          stream_encoding frag ! 3 = str_of_int (64 * c) @ ''k''"
    by blast
next
  assume u: "channels s = None \<or> channels s = Some 0"
  have "eac_bitrate settings s =
          Inr (''64'', [LogDebug ''Stream did not contain 'channels'. Using community default (64k).''])"
    using eac_bitrate_auto [OF assms] calculate_bitrate_unknown [OF u] str_64 by simp
  from custom_stream_mapping_bitrate [OF this]
  show "\<exists>frag. eac_custom_stream_mapping settings self s stream_id =
          Inr (frag, [LogDebug ''Stream did not contain 'channels'. Using community default (64k).'']) \<and>
          stream_encoding frag ! 2 = ''-b:a:'' @ str_of_int stream_id \<and>
          stream_encoding frag ! 3 = ''64k''"
    by simp
next
  show "str_of_int (64 * 6) @ ''k'' = ''384k''"
    by (simp add: number_eval)
qed

theorem bitrate_defaulting_witness:
  "(\<exists>frag log. eac_custom_stream_mapping eac_default_settings eac_PluginStreamMapper
       (audio_stream ''aac'' (Some 6) None) 0 = Inr (frag, log) \<and>
       stream_encoding frag ! 2 = ''-b:a:0'' \<and> stream_encoding frag ! 3 = ''384k'') \<and>
   (\<exists>frag. eac_custom_stream_mapping (eac_default_settings\<lparr>bitrate := SStr ''0''\<rparr>) eac_PluginStreamMapper
       (audio_stream ''aac'' None None) 0 =
         Inr (frag, [LogDebug ''Stream did not contain 'channels'. Using community default (64k).'']) \<and>
       stream_encoding frag ! 2 = ''-b:a:0'' \<and> stream_encoding frag ! 3 = ''64k'')"
proof -
  have auto0: "\<not> py_truthy (bitrate eac_default_settings) \<or> py_int (bitrate eac_default_settings) = Inr 0"
    by (simp add: eac_default_settings_def)
  have auto1: "\<not> py_truthy (bitrate (eac_default_settings\<lparr>bitrate := SStr ''0''\<rparr>))
                \<or> py_int (bitrate (eac_default_settings\<lparr>bitrate := SStr ''0''\<rparr>)) = Inr 0"
    by (simp add: int_of_str_def int_strip_def is_int_space_def digit_val_def)
  have six: "channels (audio_stream ''aac'' (Some 6) None) = Some 6 \<and> (6::int) \<noteq> 0"
    by (simp add: audio_stream_def)
  have none: "channels (audio_stream ''aac'' None None) = None \<or> channels (audio_stream ''aac'' None None) = Some 0"
    by (simp add: audio_stream_def)
  have s0: "''-b:a:'' @ str_of_int 0 = ''-b:a:0''"
    by (simp add: number_eval)
  note t6 = bitrate_defaulting [OF auto0, of "audio_stream ''aac'' (Some 6) None" eac_PluginStreamMapper 0]
  note t0 = bitrate_defaulting [OF auto1, of "audio_stream ''aac'' None None" eac_PluginStreamMapper 0]
  from t6 six obtain frag log where
    "eac_custom_stream_mapping eac_default_settings eac_PluginStreamMapper
       (audio_stream ''aac'' (Some 6) None) 0 = Inr (frag, log)"
    "stream_encoding frag ! 2 = ''-b:a:'' @ str_of_int 0"
    "stream_encoding frag ! 3 = str_of_int (64 * 6) @ ''k''"
    by blast
  moreover from t6 have "str_of_int (64 * 6) @ ''k'' = ''384k''"
    by blast
  ultimately have first: "\<exists>frag log. eac_custom_stream_mapping eac_default_settings eac_PluginStreamMapper
       (audio_stream ''aac'' (Some 6) None) 0 = Inr (frag, log) \<and>
       stream_encoding frag ! 2 = ''-b:a:0'' \<and> stream_encoding frag ! 3 = ''384k''"
    using s0 by metis
  from t0 none obtain frag' where
    "eac_custom_stream_mapping (eac_default_settings\<lparr>bitrate := SStr ''0''\<rparr>) eac_PluginStreamMapper
       (audio_stream ''aac'' None None) 0 =
         Inr (frag', [LogDebug ''Stream did not contain 'channels'. Using community default (64k).''])"
    "stream_encoding frag' ! 2 = ''-b:a:'' @ str_of_int 0"
    "stream_encoding frag' ! 3 = ''64k''"
    by blast
  then have second: "\<exists>frag. eac_custom_stream_mapping (eac_default_settings\<lparr>bitrate := SStr ''0''\<rparr>) eac_PluginStreamMapper
       (audio_stream ''aac'' None None) 0 =
         Inr (frag, [LogDebug ''Stream did not contain 'channels'. Using community default (64k).'']) \<and>
       stream_encoding frag ! 2 = ''-b:a:0'' \<and> stream_encoding frag ! 3 = ''64k''"
    using s0 by metis
  from first second show ?thesis by (rule conjI)
qed

text \<open>
  Claim C3 as first stated, with \<open>64 * channels\<close> for every channel count that is there,
  fails for a stream that reports zero channels: \<^verbatim>\<open>if not channels\<close> takes the zero for
  a missing count, and the bitrate is \<^verbatim>\<open>64k\<close>, not \<^verbatim>\<open>0k\<close>.
\<close>

theorem zero_channels_counterexample:
  "eac_custom_stream_mapping eac_default_settings eac_PluginStreamMapper
     (audio_stream ''aac'' (Some 0) None) 0
   = Inr (\<lparr>stream_mapping = [''-map'', ''0:a:0''],
           stream_encoding = [''-c:a:0'', ''libopus'', ''-b:a:0'', ''64k'', ''-ac:a:0'', ''0'',
             ''-af:a:0'', ''aformat=channel_layouts='7.1|5.1|stereo|mono'' @ [CHR 0x27]]\<rparr>,
          [LogDebug ''Stream did not contain 'channels'. Using community default (64k).'']) \<and>
   ''64k'' \<noteq> str_of_int (64 * 0) @ ''k''"
  by (simp add: eac_eval number_eval)

text \<open>
  Claim C4. The codec predicate should be a case-insensitive exact match, false also when
  the configured \<^verbatim>\<open>if_not_found\<close> differs from the codec name in letter case only. The
  code lowercases the codec name and not the configured text: with \<^verbatim>\<open>OPUS\<close>
  configured, an \<^verbatim>\<open>opus\<close> stream is selected for re-encoding.
\<close>

theorem codec_name_case_mismatch:
  "eac_test_stream_needs_processing (eac_default_settings\<lparr>if_not_found := ''OPUS''\<rparr>)
     eac_PluginStreamMapper (audio_stream ''opus'' (Some 2) None) = Inr (True, []) \<and>
   eac_test_stream_needs_processing eac_default_settings
     eac_PluginStreamMapper (audio_stream ''opus'' (Some 2) None) = Inr (False, [])"
  by (simp add: eac_test_stream_needs_processing_def eac_default_settings_def audio_stream_def
      string_eval)

text \<open>
  Claim C5. Tag lookups should not depend on the letter case of the tag keys. The code
  finds the key in any letter case and then reads the value under the lowercase key only:
  a stream tagged \<^verbatim>\<open>LANGUAGE=eng\<close> does not match the configured language \<^verbatim>\<open>eng\<close>,
  while the same stream tagged \<^verbatim>\<open>language=eng\<close> does; and the title block finds the
  phrase under the key \<^verbatim>\<open>title\<close> and not under \<^verbatim>\<open>TITLE\<close>.
\<close>

theorem tag_key_case_changes_match:
  "test_tags_for_search_string
     \<lparr>languages_audio = ''eng'', languages_subtitle = [], title_audio_or_sub = ''commentary''\<rparr>
     (rsbl_mapper 2) (Some [(''LANGUAGE'', ''eng'')]) (Some 1) ''audio'' = (False, []) \<and>
   test_tags_for_search_string
     \<lparr>languages_audio = ''eng'', languages_subtitle = [], title_audio_or_sub = ''commentary''\<rparr>
     (rsbl_mapper 2) (Some [(''language'', ''eng'')]) (Some 1) ''audio'' = (True, []) \<and>
   title_found
     \<lparr>languages_audio = ''eng'', languages_subtitle = [], title_audio_or_sub = ''commentary''\<rparr>
     (Some [(''TITLE'', ''Commentary'')]) = False \<and>
   title_found
     \<lparr>languages_audio = ''eng'', languages_subtitle = [], title_audio_or_sub = ''commentary''\<rparr>
     (Some [(''title'', ''Commentary'')]) = True"
  by (simp add: rsbl_eval string_eval)

text \<open>
  Claim C6, as amended. A missing language tag is never fatal: for a stream whose tags are
  absent, or hold no key that is \<^verbatim>\<open>language\<close> in any letter case, and whose title matches
  no configured phrase, \<^verbatim>\<open>test_tags_for_search_string\<close> returns false and logs the
  warning that the stream has no language tag. It returns a value on every input: the
  model has no error branch, since no step of the method can raise on tags and settings
  that are texts.
\<close>

theorem missing_language_tag_is_no_match:
  assumes "stream_tags = None \<or> (\<exists>ts. stream_tags = Some ts \<and> ''language'' \<notin> py_lower ` fst ` set ts)"
    and "\<not> title_found settings stream_tags"
  shows "test_tags_for_search_string settings self stream_tags stream_id ctype =
           (False, [LogWarning (''Audio/Subtitle stream #'' @ format_opt_int stream_id
              @ '' in file '' @ [CHR 0x27] @ format_opt_str (input_file self) @ [CHR 0x27]
              @ '' has no 'language' tag. Ignoring.'')])"
proof -
  from assms(1) have "\<not> has_tag_key ''language'' stream_tags"
    by (auto simp: has_tag_key_iff)
  with assms(2) show ?thesis
    by (simp add: test_tags_for_search_string_def)
qed

theorem missing_language_tag_is_no_match_witness:
  "test_tags_for_search_string
     \<lparr>languages_audio = ''eng'', languages_subtitle = ''eng'', title_audio_or_sub = ''commentary''\<rparr>
     (rsbl_mapper 2) (Some [(''title'', ''Surround 5.1'')]) (Some 1) ''audio''
   = (False, [LogWarning (''Audio/Subtitle stream #1 in file '/in.mkv' has no 'language' tag. Ignoring.'')])
   \<and>
   test_tags_for_search_string
     \<lparr>languages_audio = ''eng'', languages_subtitle = ''eng'', title_audio_or_sub = ''commentary''\<rparr>
     (rsbl_mapper 2) None None ''subtitle''
   = (False, [LogWarning (''Audio/Subtitle stream #None in file '/in.mkv' has no 'language' tag. Ignoring.'')])"
proof -
  let ?S = "\<lparr>languages_audio = ''eng'', languages_subtitle = ''eng'', title_audio_or_sub = ''commentary''\<rparr>"
  have no_lang: "Some [(''title'', ''Surround 5.1'')] = None \<or>
      (\<exists>ts. Some [(''title'', ''Surround 5.1'')] = Some ts \<and> ''language'' \<notin> py_lower ` fst ` set ts)"
    by (simp add: string_eval)
  have no_title: "\<not> title_found ?S (Some [(''title'', ''Surround 5.1'')])"
    by (simp add: title_found_def has_tag_key_def tags_get_def string_eval)
  have absent: "(None :: (string \<times> string) list option) = None \<or>
      (\<exists>ts. None = Some ts \<and> ''language'' \<notin> py_lower ` fst ` set ts)"
    by simp
  have no_title': "\<not> title_found ?S None"
    by (simp add: title_found_def has_tag_key_def)
  show ?thesis
    using missing_language_tag_is_no_match [OF no_lang no_title, of "rsbl_mapper 2" "Some 1" "''audio''"]
      missing_language_tag_is_no_match [OF absent no_title', of "rsbl_mapper 2" None "''subtitle''"]
    by (simp add: rsbl_mapper_def set_input_file_def format_opt_str_def format_opt_int_def number_eval)
qed

text \<open>
  Claim C6 as first stated, for every stream whose tags hold no key \<^verbatim>\<open>language\<close>, fails
  where the key is there in another letter case: the presence test
  \<^verbatim>\<open>k.lower() in ['language']\<close> finds \<^verbatim>\<open>Language\<close>, the method enters the language
  block, and a French subtitle stream that matches no configured language is kept
  without any log record.
\<close>

theorem language_key_in_other_case_counterexample:
  "map_of [(''Language'', ''fre'')] ''language'' = None \<and>
   title_found
     \<lparr>languages_audio = ''eng'', languages_subtitle = ''eng'', title_audio_or_sub = ''commentary''\<rparr>
     (Some [(''Language'', ''fre'')]) = False \<and>
   test_tags_for_search_string
     \<lparr>languages_audio = ''eng'', languages_subtitle = ''eng'', title_audio_or_sub = ''commentary''\<rparr>
     (rsbl_mapper 2) (Some [(''Language'', ''fre'')]) (Some 2) ''subtitle'' = (False, [])"
  by (simp add: rsbl_eval string_eval)

text \<open>
  Claim C7. No-op command on no work: when the probe succeeds and the mapper's
  \<^verbatim>\<open>streams_need_processing()\<close> is false, \<^verbatim>\<open>on_worker_process\<close> of either plugin
  returns its data with \<^verbatim>\<open>exec_command\<close> the empty list and \<^verbatim>\<open>repeat\<close> false, and
  with nothing else changed.
\<close>

theorem no_work_gives_empty_command:
  "(probe_file lib [''audio'', ''video''] (file_in data) = Some p \<and>
    streams_need_processing lib (eac_test_stream_needs_processing es)
      (eac_custom_stream_mapping es) (set_probe p eac_PluginStreamMapper) = Inr ((False, m1), log1)
    \<longrightarrow> eac_on_worker_process lib es data =
          Inr (data\<lparr>exec_command := [], repeat := False\<rparr>,
               ProbeFile [''audio'', ''video''] (file_in data) # log1)) \<and>
   (probe_file lib [''video''] (file_in data) = Some q \<and>
    streams_need_processing lib (rsbl_test_stream_needs_processing rs)
      rsbl_custom_stream_mapping
      (set_input_file (file_in data) (set_probe q rsbl_PluginStreamMapper)) = Inr ((False, m2), log2)
    \<longrightarrow> rsbl_on_worker_process lib rs data =
          Inr (data\<lparr>exec_command := [], repeat := False\<rparr>,
               ProbeFile [''video''] (file_in data) # log2))"
  by (simp add: eac_on_worker_process_def rsbl_on_worker_process_def Let_def)

theorem no_work_gives_empty_command_witness:
  "eac_on_worker_process (spec_lib opus_file) eac_default_settings example_worker_data =
     Inr (example_worker_data\<lparr>exec_command := [], repeat := False\<rparr>,
          [ProbeFile [''audio'', ''video''] ''/in.mkv'']) \<and>
   rsbl_on_worker_process (spec_lib opus_file)
     \<lparr>languages_audio = ''eng'', languages_subtitle = [], title_audio_or_sub = []\<rparr> example_worker_data =
     Inr (example_worker_data\<lparr>exec_command := [], repeat := False\<rparr>,
          [ProbeFile [''video''] ''/in.mkv'',
           LogWarning ''Video file '/in.mkv' has only 1 audio stream skipping strip.''])"
proof -
  let ?p = "\<lparr>streams = [video_h264, audio_stream ''opus'' (Some 2) (Some [(''language'', ''eng'')])]\<rparr>"
  let ?rs = "\<lparr>languages_audio = ''eng'', languages_subtitle = [], title_audio_or_sub = []\<rparr>"
  let ?m1 = "(set_probe ?p eac_PluginStreamMapper)\<lparr>audio_stream_count := 1\<rparr>"
  let ?m2 = "(set_input_file ''/in.mkv'' (set_probe ?p rsbl_PluginStreamMapper))\<lparr>audio_stream_count := 1\<rparr>"
  have f: "file_in example_worker_data = ''/in.mkv''"
    by (simp add: example_worker_data_def)
  have p1: "probe_file (spec_lib opus_file) [''audio'', ''video''] (file_in example_worker_data) = Some ?p"
    by (simp add: spec_lib_def opus_file_def example_worker_data_def)
  have p2: "probe_file (spec_lib opus_file) [''video''] (file_in example_worker_data) = Some ?p"
    by (simp add: spec_lib_def opus_file_def example_worker_data_def)
  have n1: "streams_need_processing (spec_lib opus_file)
      (eac_test_stream_needs_processing eac_default_settings)
      (eac_custom_stream_mapping eac_default_settings) (set_probe ?p eac_PluginStreamMapper)
      = Inr ((False, ?m1), [])"
    by (simp add: lib_eval eac_eval string_eval)
  have n2: "streams_need_processing (spec_lib opus_file)
      (rsbl_test_stream_needs_processing ?rs) rsbl_custom_stream_mapping
      (set_input_file (file_in example_worker_data) (set_probe ?p rsbl_PluginStreamMapper))
      = Inr ((False, ?m2), [LogWarning ''Video file '/in.mkv' has only 1 audio stream skipping strip.''])"
    by (simp add: lib_eval rsbl_eval string_eval)
  show ?thesis
    using no_work_gives_empty_command [where lib = "spec_lib opus_file" and data = example_worker_data
        and es = eac_default_settings and rs = ?rs and p = ?p and q = ?p
        and ?m1.0 = ?m1 and ?m2.0 = ?m2 and ?log1.0 = "[]"
        and ?log2.0 = "[LogWarning ''Video file '/in.mkv' has only 1 audio stream skipping strip.'']"]
      p1 p2 n1 n2 f
    by simp
qed

text \<open>
  Claim C8. Probe failure exclusion: when the probe of the file fails,
  \<^verbatim>\<open>on_worker_process\<close> of either plugin returns the data with \<^verbatim>\<open>exec_command\<close> the
  empty list, and \<^verbatim>\<open>on_library_management_file_test\<close> of either plugin returns without
  marking the file (the data as it came, or \<^verbatim>\<open>False\<close> where the removal plugin has no
  language configured). Neither hook raises.
\<close>

theorem probe_failure_schedules_nothing:
  "(probe_file lib [''audio'', ''video''] (file_in wd) = None \<longrightarrow>
      eac_on_worker_process lib es wd =
        Inr (wd\<lparr>exec_command := [], repeat := False\<rparr>,
             [ProbeFile [''audio'', ''video''] (file_in wd)])) \<and>
   (probe_file lib [''audio'', ''video''] (path fd) = None \<longrightarrow>
      eac_on_library_management_file_test lib es fd =
        Inr (ReturnData fd, [ProbeFile [''audio'', ''video''] (path fd)])) \<and>
   (probe_file lib [''video''] (file_in wd) = None \<longrightarrow>
      rsbl_on_worker_process lib rs wd =
        Inr (wd\<lparr>exec_command := [], repeat := False\<rparr>, [ProbeFile [''video''] (file_in wd)])) \<and>
   (probe_file lib [''video''] (path fd) = None \<longrightarrow>
      rsbl_on_library_management_file_test lib rs fd =
        (if languages_subtitle rs = [] \<and> languages_audio rs = [] then
           Inr (ReturnFalse,
                [LogDebug ''Plugin has not yet been configured with a list of languages to remove. Blocking everything.''])
         else Inr (ReturnData fd, [ProbeFile [''video''] (path fd)])))"
  by (simp add: eac_on_worker_process_def eac_on_library_management_file_test_def
      rsbl_on_worker_process_def rsbl_on_library_management_file_test_def Let_def)

theorem probe_failure_schedules_nothing_witness:
  "eac_on_worker_process (spec_lib (\<lambda>f. None)) eac_default_settings example_worker_data =
     Inr (example_worker_data\<lparr>exec_command := [], repeat := False\<rparr>,
          [ProbeFile [''audio'', ''video''] ''/in.mkv'']) \<and>
   eac_on_library_management_file_test (spec_lib (\<lambda>f. None)) eac_default_settings
     example_file_test_data =
     Inr (ReturnData example_file_test_data, [ProbeFile [''audio'', ''video''] ''/in.mkv'']) \<and>
   rsbl_on_worker_process (spec_lib (\<lambda>f. None))
     \<lparr>languages_audio = ''eng'', languages_subtitle = [], title_audio_or_sub = []\<rparr>
     example_worker_data =
     Inr (example_worker_data\<lparr>exec_command := [], repeat := False\<rparr>,
          [ProbeFile [''video''] ''/in.mkv'']) \<and>
   rsbl_on_library_management_file_test (spec_lib (\<lambda>f. None))
     \<lparr>languages_audio = ''eng'', languages_subtitle = [], title_audio_or_sub = []\<rparr>
     example_file_test_data =
     Inr (ReturnData example_file_test_data, [ProbeFile [''video''] ''/in.mkv''])"
proof -
  have none: "\<And>types f. probe_file (spec_lib (\<lambda>f. None)) types f = None"
    by (simp add: spec_lib_def)
  show ?thesis
    using probe_failure_schedules_nothing [where lib = "spec_lib (\<lambda>f. None)"
        and wd = example_worker_data and fd = example_file_test_data
        and es = eac_default_settings
        and rs = "\<lparr>languages_audio = ''eng'', languages_subtitle = [], title_audio_or_sub = []\<rparr>"]
      none
    by (simp add: example_worker_data_def example_file_test_data_def)
qed

text \<open>
  Claim C9. The removal builder emits nothing: for every stream and every stream id,
  \<^verbatim>\<open>custom_stream_mapping\<close> of the removal plugin returns an empty mapping and an empty
  encoding.
\<close>

theorem removal_builder_emits_nothing:
  "rsbl_custom_stream_mapping self stream_info stream_id =
     Inr (\<lparr>stream_mapping = [], stream_encoding = []\<rparr>, [])"
  by (simp add: rsbl_custom_stream_mapping_def)

text \<open>
  Claim C10. With both language settings empty, \<^verbatim>\<open>on_library_management_file_test\<close> of
  the removal plugin returns \<^verbatim>\<open>False\<close> and not the data; it logs one debug line and does
  not probe the file, whatever title phrases are configured and whatever the file holds.
\<close>

theorem unconfigured_languages_return_False:
  "languages_audio settings = [] \<Longrightarrow> languages_subtitle settings = [] \<Longrightarrow>
     rsbl_on_library_management_file_test lib settings data =
       Inr (ReturnFalse,
            [LogDebug ''Plugin has not yet been configured with a list of languages to remove. Blocking everything.''])"
  by (simp add: rsbl_on_library_management_file_test_def)

theorem unconfigured_languages_return_False_witness:
  "rsbl_on_library_management_file_test (spec_lib commentary_file)
     \<lparr>languages_audio = [], languages_subtitle = [], title_audio_or_sub = ''commentary''\<rparr>
     example_file_test_data =
       Inr (ReturnFalse,
            [LogDebug ''Plugin has not yet been configured with a list of languages to remove. Blocking everything.''])"
  using unconfigured_languages_return_False
    [of "\<lparr>languages_audio = [], languages_subtitle = [], title_audio_or_sub = ''commentary''\<rparr>"
        "spec_lib commentary_file" example_file_test_data]
  by simp

end
